theory Spec2Isabelle
  imports Complex_Main "HOL-Library.AList"
begin

section \<open>Data model of the interpreter\<close>

text \<open>
  The built-in functions of hydra (\<^verbatim>\<open>src/interpreter_functions.cpp\<close>) work on values of
  type \<^verbatim>\<open>std::any\<close> holding a double, a string, a boolean or a \<^verbatim>\<open>PropertyMap\<close>. A
  value of the C++ type \<^verbatim>\<open>double\<close> is modelled by the real number it denotes; the special
  values of IEEE arithmetic (NaN, the infinities, signed zeros) are outside the model. The
  comparisons are written exactly as the source writes them, negations included.
\<close>

datatype "value" =
    Number real
  | String string
  | Boolean bool
  | Record "(string \<times> value) list"

text \<open>A polar coordinate \<^verbatim>\<open>Pol\<close> with its fields \<^verbatim>\<open>r\<close> and \<^verbatim>\<open>phi\<close>.\<close>

datatype pol = Pol (pol_r: real) (pol_phi: real)

text \<open>A \<^verbatim>\<open>Path\<close>: the points pushed back so far and the flag \<^verbatim>\<open>is_closed\<close>.\<close>

record path =
  points :: "pol list"
  is_closed :: bool

text \<open>
  The state the handlers work on: the scope stack of \<^verbatim>\<open>system.state\<close> (the root frame
  first, the innermost frame last) and, of the canvas, its resolution and the paths added
  to it.
\<close>

type_synonym frame = "(string \<times> value) list"

record interpreter =
  scopes :: "frame list"
  canvas_resolution :: real
  canvas_paths :: "path list"

text \<open>
  Every \<^verbatim>\<open>return false\<close> of a handler is one constructor. A handler that returns false
  because the argument binder or a typed parameter fetch returned false prints nothing of
  its own (\<open>ArgumentsFailed\<close>, \<open>ParameterFailed\<close>); the other constructors stand for
  the message the handler prints before it returns false.
\<close>

datatype error =
    ArgumentsFailed
  | ParameterFailed string
  | InconsistentEndpoints
  | NonPositiveStep
  | ScopeCloseError
  | InvalidRange
  | InvalidTriangle
  | NumericalFailure
  | InvalidResolution

text \<open>
  What a handler leaves behind: the error or the content of \<^verbatim>\<open>result\<close> (\<open>None\<close> after
  \<^verbatim>\<open>result.reset()\<close>), and the state. Both are kept on failure too, since a handler
  that returns false has already changed the state.
\<close>

type_synonym outcome = "(error + value option) \<times> interpreter"

text \<open>
  \<^verbatim>\<open>interpret_arguments_from_function_call(function_call, interpreted_arguments, names)\<close>
  is not part of the source file. It is a parameter of every handler: given the names to
  evaluate (\<open>None\<close> when the third argument is left out and all arguments are evaluated)
  and the current state, it yields the map of evaluated arguments, or \<open>None\<close> when it
  returns false, and the state after the evaluation, which may have run nested calls.
\<close>

type_synonym call_binder =
  "string list option \<Rightarrow> interpreter \<Rightarrow> (string \<times> value) list option \<times> interpreter"

text \<open>
  The operations of \<^verbatim>\<open>double\<close> round their results. In the two curve handlers, whose
  loops accumulate the sampled radii by repeated addition, the four operations are
  parameters: a theorem about these handlers holds for whatever the operations return,
  unless it names \<open>exact_arithmetic\<close>, the operations without rounding. The concrete
  calls further down take the same branches with the machine's operations as with the
  exact ones, and collect the same radii, but for the call at resolution 5, where the
  last digits of three radii differ.
\<close>

record double_arithmetic =
  dadd :: "real \<Rightarrow> real \<Rightarrow> real"
  dsub :: "real \<Rightarrow> real \<Rightarrow> real"
  dmul :: "real \<Rightarrow> real \<Rightarrow> real"
  ddiv :: "real \<Rightarrow> real \<Rightarrow> real"

definition exact_arithmetic :: double_arithmetic where
  "exact_arithmetic = \<lparr>dadd = (+), dsub = (-), dmul = (*), ddiv = (/)\<rparr>"

subsection \<open>Collaborators that are not in the source file\<close>

text \<open>Modelled from the spec: the reserved key of a structured record that holds the
  type name (\<^verbatim>\<open>System::type_string\<close>); its spelling is not in the source file.\<close>

definition type_string :: string where
  "type_string = ''type''"

text \<open>Modelled from the spec: \<^verbatim>\<open>number_value_for_parameter\<close> fetches a bound value and
  fails when the parameter is absent or its value is not a number.\<close>

definition number_value_for_parameter :: "string \<Rightarrow> (string \<times> value) list \<Rightarrow> real option" where
  "number_value_for_parameter name interpreted_arguments =
     (case map_of interpreted_arguments name of
        Some (Number x) \<Rightarrow> Some x
      | _ \<Rightarrow> None)"

text \<open>Modelled from the spec: \<^verbatim>\<open>pol_value_for_parameter\<close> fetches a bound value and
  fails unless it is a record whose type tag is \<open>Pol\<close> with numeric fields \<open>r\<close> and
  \<open>phi\<close>.\<close>

definition pol_value_for_parameter :: "string \<Rightarrow> (string \<times> value) list \<Rightarrow> pol option" where
  "pol_value_for_parameter name interpreted_arguments =
     (case map_of interpreted_arguments name of
        Some (Record property_map) \<Rightarrow>
          (case (map_of property_map type_string, map_of property_map ''r'',
                 map_of property_map ''phi'') of
             (Some (String t), Some (Number x), Some (Number y)) \<Rightarrow>
               if t = ''Pol'' then Some (Pol x y) else None
           | _ \<Rightarrow> None)
      | _ \<Rightarrow> None)"

text \<open>Modelled from the spec: \<^verbatim>\<open>open_new_scope\<close> pushes a new empty frame and cannot
  fail.\<close>

definition open_new_scope :: "interpreter \<Rightarrow> interpreter" where
  "open_new_scope s = s\<lparr>scopes := scopes s @ [[]]\<rparr>"

text \<open>Modelled from the spec: \<^verbatim>\<open>define_variable_with_value\<close> creates the binding in
  the innermost frame, overwriting a binding of the same name there, and returns the
  identifier of that frame, here its index in the stack.\<close>

definition define_variable_with_value :: "string \<Rightarrow> value \<Rightarrow> interpreter \<Rightarrow> nat \<times> interpreter" where
  "define_variable_with_value name v s =
     (let current = length (scopes s) - 1
      in (current,
          if scopes s = [] then s
          else s\<lparr>scopes := (scopes s)[current := AList.update name v (scopes s ! current)]\<rparr>))"

text \<open>Modelled from the spec: \<^verbatim>\<open>set_value_for_variable\<close> updates the binding in the
  frame with the given identifier directly, without lexical search. The handlers ignore
  what it returns.\<close>

definition set_value_for_variable :: "string \<Rightarrow> value \<Rightarrow> nat \<Rightarrow> interpreter \<Rightarrow> interpreter" where
  "set_value_for_variable name v scope s =
     (if scope < length (scopes s)
      then s\<lparr>scopes := (scopes s)[scope := AList.update name v (scopes s ! scope)]\<rparr>
      else s)"

text \<open>Modelled from the spec: \<^verbatim>\<open>close_scope\<close> pops the innermost frame and returns
  false, leaving the stack as it is, when only the root frame remains.\<close>

definition close_scope :: "interpreter \<Rightarrow> bool \<times> interpreter" where
  "close_scope s =
     (if length (scopes s) \<le> 1 then (False, s)
      else (True, s\<lparr>scopes := butlast (scopes s)\<rparr>))"

text \<open>\<^verbatim>\<open>canvas.add_path(path)\<close> appends the path to the paths of the canvas.\<close>

definition add_path :: "path \<Rightarrow> interpreter \<Rightarrow> interpreter" where
  "add_path p s = s\<lparr>canvas_paths := canvas_paths s @ [p]\<rparr>"

text \<open>Modelled from the spec: \<^verbatim>\<open>Pol::rotate_by\<close> adds the angle to \<open>phi\<close>.\<close>

definition rotate_by :: "real \<Rightarrow> pol \<Rightarrow> pol" where
  "rotate_by angle p = Pol (pol_r p) (pol_phi p + angle)"

text \<open>The property map the curve handlers bind to the hidden variable.\<close>

definition current_point :: "real \<Rightarrow> real \<Rightarrow> value" where
  "current_point radius angle =
     Record [(type_string, String ''Pol''), (''r'', Number radius), (''phi'', Number angle)]"

definition hidden_variable_name :: string where
  "hidden_variable_name = ''_p''"

section \<open>\<^verbatim>\<open>function_curve_angle\<close>\<close>

text \<open>
  The inner loop of lines 291 to 299: it pushes \<open>additional_r\<close> while it is below
  \<open>radius + step_size\<close> (here \<open>bound\<close>) and adds \<open>additional_step_size\<close> to it with
  the addition of doubles. Nothing in the loop itself makes it stop when the addition
  does not advance, so it is a partial function: \<open>None\<close> is the loop that never ends.
\<close>

partial_function (option) additional_radii ::
  "double_arithmetic \<Rightarrow> real \<Rightarrow> real \<Rightarrow> real \<Rightarrow> real list \<Rightarrow> real list option" where
  "additional_radii ar bound additional_step_size additional_r radii =
     (if additional_r < bound
      then additional_radii ar bound additional_step_size
             (dadd ar additional_r additional_step_size) (radii @ [additional_r])
      else Some radii)"

declare additional_radii.simps [code]

text \<open>The loop of lines 282 to 303, which collects all the radii to sample.\<close>

partial_function (option) angle_radii ::
  "double_arithmetic \<Rightarrow> real \<Rightarrow> real \<Rightarrow> real \<Rightarrow> real \<Rightarrow> real \<Rightarrow> real \<Rightarrow> real list
     \<Rightarrow> real list option" where
  "angle_radii ar from_r to_r step_size additional_detail_threshold additional_step_size
       radius radii =
     (if radius \<le> to_r
      then Option.bind
             (if radius < dadd ar from_r additional_detail_threshold
              then additional_radii ar (dadd ar radius step_size) additional_step_size
                     (dadd ar radius additional_step_size) (radii @ [radius])
              else Some (radii @ [radius]))
             (\<lambda>radii'. angle_radii ar from_r to_r step_size additional_detail_threshold
                          additional_step_size (dadd ar radius step_size) radii')
      else Some radii)"

declare angle_radii.simps [code]

text \<open>
  The loop of lines 305 to 340 over the collected radii. Each \<^verbatim>\<open>return false\<close> inside
  it leaves the function at once, with the state as it is at that moment.
\<close>

fun angle_samples ::
  "double_arithmetic \<Rightarrow> call_binder \<Rightarrow> real \<Rightarrow> nat \<Rightarrow> real list \<Rightarrow> pol list \<Rightarrow> interpreter
     \<Rightarrow> (error + pol list) \<times> interpreter" where
  "angle_samples ar interpret_arguments from_phi current_scope [] pts s = (Inr pts, s)"
| "angle_samples ar interpret_arguments from_phi current_scope (r # radii) pts s =
     (let s1 = set_value_for_variable hidden_variable_name (current_point r from_phi)
                 current_scope s
      in case interpret_arguments (Some [''angle'']) s1 of
           (None, s2) \<Rightarrow> (Inl ArgumentsFailed, s2)
         | (Some interpreted_angle_argument, s2) \<Rightarrow>
             (case number_value_for_parameter ''angle'' interpreted_angle_argument of
                None \<Rightarrow> (Inl (ParameterFailed ''angle''), s2)
              | Some angle \<Rightarrow>
                  angle_samples ar interpret_arguments from_phi current_scope radii
                    (pts @ [Pol r (dadd ar from_phi angle)]) s2))"

text \<open>
  Lines 211 to 215: \<^verbatim>\<open>Pol temp = from; from = to; to = from;\<close>, one assignment after
  the other.
\<close>

definition order_endpoints :: "pol \<Rightarrow> pol \<Rightarrow> pol \<times> pol" where
  "order_endpoints from to =
     (if pol_r from > pol_r to
      then (let temp = from; from1 = to; to1 = from1 in (from1, to1))
      else (from, to))"

text \<open>Lines 220 to 357, from the step size to the path added to the canvas.\<close>

definition curve_angle_path ::
  "double_arithmetic \<Rightarrow> call_binder \<Rightarrow> pol \<Rightarrow> pol \<Rightarrow> interpreter \<Rightarrow> outcome option" where
  "curve_angle_path ar interpret_arguments from to s =
     (let step_size = ddiv ar (dsub ar (pol_r to) (pol_r from)) (canvas_resolution s);
          additional_detail_threshold = dmul ar 5 step_size;
          additional_detail_points = ddiv ar (canvas_resolution s) 5;
          additional_step_size = ddiv ar step_size additional_detail_points
      in if \<not> (step_size > 0) then Some (Inl NonPositiveStep, s)
         else
           let radius = pol_r from;
               s1 = open_new_scope s;
               (current_scope, s2) =
                  define_variable_with_value hidden_variable_name
                    (current_point radius (pol_phi from)) s1
           in case angle_radii ar (pol_r from) (pol_r to) step_size additional_detail_threshold
                     additional_step_size radius [] of
                None \<Rightarrow> None
              | Some radii \<Rightarrow>
                  (case angle_samples ar interpret_arguments (pol_phi from) current_scope radii []
                          s2 of
                     (Inl e, s3) \<Rightarrow> Some (Inl e, s3)
                   | (Inr pts, s3) \<Rightarrow>
                       (case close_scope s3 of
                          (False, s4) \<Rightarrow> Some (Inl ScopeCloseError, s4)
                        | (True, s4) \<Rightarrow>
                            Some (Inr None,
                                  add_path \<lparr>points = pts, is_closed = False\<rparr> s4))))"

text \<open>Lines 162 to 358. \<open>None\<close> is a call that never returns.\<close>

definition function_curve_angle ::
  "double_arithmetic \<Rightarrow> call_binder \<Rightarrow> interpreter \<Rightarrow> outcome option" where
  "function_curve_angle ar interpret_arguments s0 =
     (case interpret_arguments (Some [''from'', ''to'']) s0 of
        (None, s) \<Rightarrow> Some (Inl ArgumentsFailed, s)
      | (Some interpreted_arguments, s) \<Rightarrow>
          (case pol_value_for_parameter ''from'' interpreted_arguments of
             None \<Rightarrow> Some (Inl (ParameterFailed ''from''), s)
           | Some from \<Rightarrow>
               (case pol_value_for_parameter ''to'' interpreted_arguments of
                  None \<Rightarrow> Some (Inl (ParameterFailed ''to''), s)
                | Some to \<Rightarrow>
                    if pol_phi from \<noteq> pol_phi to then Some (Inl InconsistentEndpoints, s)
                    else (case order_endpoints from to of
                            (from1, to1) \<Rightarrow>
                              curve_angle_path ar interpret_arguments from1 to1 s))))"

section \<open>\<^verbatim>\<open>function_curve_distance\<close>\<close>

text \<open>
  \<^verbatim>\<open>Pol::distance_to\<close> and \<^verbatim>\<open>Pol::translate_horizontally_by\<close> are not in the source
  file and the spec gives no formula for them. They are parameters of the handler, named
  \<open>distance_to\<close> and \<open>translate_horizontally_by\<close> throughout.
\<close>

type_synonym distance_fn = "pol \<Rightarrow> pol \<Rightarrow> real"
type_synonym translate_fn = "real \<Rightarrow> pol \<Rightarrow> pol"

text \<open>The loop of lines 482 to 484: the sample positions on the reference ray.\<close>

partial_function (option) distance_radii ::
  "double_arithmetic \<Rightarrow> real \<Rightarrow> real \<Rightarrow> real \<Rightarrow> real list \<Rightarrow> real list option" where
  "distance_radii ar translated_to_r step_size radius radii =
     (if radius < translated_to_r
      then distance_radii ar translated_to_r step_size (dadd ar radius step_size)
             (radii @ [radius])
      else Some radii)"

declare distance_radii.simps [code]

text \<open>Lines 492 to 503: the point on the line that belongs to the sample position \<open>r\<close>.\<close>

definition current_helper_point_on_line ::
  "translate_fn \<Rightarrow> real \<Rightarrow> real \<Rightarrow> real \<Rightarrow> real \<Rightarrow> pol" where
  "current_helper_point_on_line translate_horizontally_by rotation_angle translation_distance
       second_rotation_angle r =
     (let current_helper_point = Pol r 0;
          rotated_current_helper_point =
            rotate_by (- second_rotation_angle)
              (Pol (pol_r current_helper_point) (pol_phi current_helper_point));
          translated_current_helper_point =
            translate_horizontally_by (- translation_distance)
              (Pol (pol_r rotated_current_helper_point) (pol_phi rotated_current_helper_point))
      in rotate_by (- rotation_angle)
           (Pol (pol_r translated_current_helper_point)
                (pol_phi translated_current_helper_point)))"

text \<open>Lines 534 to 569: the point of the path for the sample position \<open>r\<close> and the
  evaluated distance.\<close>

definition final_resulting_point ::
  "translate_fn \<Rightarrow> real \<Rightarrow> real \<Rightarrow> real \<Rightarrow> real \<Rightarrow> real \<Rightarrow> pol" where
  "final_resulting_point translate_horizontally_by rotation_angle translation_distance
       second_rotation_angle r distance =
     (let resulting_radius = \<bar>distance\<bar>;
          resulting_angle = (if distance < 0 then (2 * pi) - (pi / 2) else pi / 2);
          resulting_point =
            translate_horizontally_by r (Pol resulting_radius resulting_angle);
          rotated_resulting_point =
            rotate_by (- second_rotation_angle)
              (Pol (pol_r resulting_point) (pol_phi resulting_point));
          translated_resulting_point =
            translate_horizontally_by (- translation_distance)
              (Pol (pol_r rotated_resulting_point) (pol_phi rotated_resulting_point))
      in rotate_by (- rotation_angle)
           (Pol (pol_r translated_resulting_point) (pol_phi translated_resulting_point)))"

text \<open>The loop of lines 486 to 575 over the sample positions.\<close>

fun distance_samples ::
  "translate_fn \<Rightarrow> call_binder \<Rightarrow> real \<Rightarrow> real \<Rightarrow> real \<Rightarrow> nat \<Rightarrow> real list \<Rightarrow> pol list
     \<Rightarrow> interpreter \<Rightarrow> (error + pol list) \<times> interpreter" where
  "distance_samples translate_horizontally_by interpret_arguments rotation_angle
       translation_distance second_rotation_angle current_scope [] pts s = (Inr pts, s)"
| "distance_samples translate_horizontally_by interpret_arguments rotation_angle
       translation_distance second_rotation_angle current_scope (r # radii) pts s =
     (let on_line = current_helper_point_on_line translate_horizontally_by rotation_angle
                      translation_distance second_rotation_angle r;
          s1 = set_value_for_variable hidden_variable_name
                 (current_point (pol_r on_line) (pol_phi on_line)) current_scope s
      in case interpret_arguments (Some [''distance'']) s1 of
           (None, s2) \<Rightarrow> (Inl ArgumentsFailed, s2)
         | (Some interpreted_distance_argument, s2) \<Rightarrow>
             (case number_value_for_parameter ''distance'' interpreted_distance_argument of
                None \<Rightarrow> (Inl (ParameterFailed ''distance''), s2)
              | Some distance \<Rightarrow>
                  distance_samples translate_horizontally_by interpret_arguments rotation_angle
                    translation_distance second_rotation_angle current_scope radii
                    (pts @ [final_resulting_point translate_horizontally_by rotation_angle
                              translation_distance second_rotation_angle r distance]) s2))"

text \<open>Lines 459 to 473: the initial movement. It yields the rotation angle, the
  translation distance and the moved endpoint \<open>translated_to\<close>.\<close>

definition initial_movement :: "translate_fn \<Rightarrow> pol \<Rightarrow> pol \<Rightarrow> real \<times> real \<times> pol" where
  "initial_movement translate_horizontally_by from to =
     (let rotation_angle = - pol_phi from;
          rotated_to = rotate_by rotation_angle (Pol (pol_r to) (pol_phi to));
          translation_distance = - pol_r from;
          translated_to =
            translate_horizontally_by translation_distance
              (Pol (pol_r rotated_to) (pol_phi rotated_to))
      in (rotation_angle, translation_distance, translated_to))"

text \<open>Lines 396 to 592, from the step size to the path added to the canvas.\<close>

definition curve_distance_path ::
  "double_arithmetic \<Rightarrow> distance_fn \<Rightarrow> translate_fn \<Rightarrow> call_binder \<Rightarrow> pol \<Rightarrow> pol
     \<Rightarrow> interpreter \<Rightarrow> outcome option" where
  "curve_distance_path ar distance_to translate_horizontally_by interpret_arguments from to s =
     (let step_size = ddiv ar (distance_to from to) (canvas_resolution s)
      in if \<not> (step_size > 0) then Some (Inl NonPositiveStep, s)
         else
           let radius = pol_r from;
               s1 = open_new_scope s;
               (current_scope, s2) =
                  define_variable_with_value hidden_variable_name
                    (current_point radius (pol_phi from)) s1;
               (rotation_angle, translation_distance, translated_to) =
                  initial_movement translate_horizontally_by from to;
               second_rotation_angle = - pol_phi translated_to
           in case distance_radii ar (pol_r translated_to) step_size 0 [] of
                None \<Rightarrow> None
              | Some radii \<Rightarrow>
                  (case distance_samples translate_horizontally_by interpret_arguments
                          rotation_angle translation_distance second_rotation_angle
                          current_scope radii [] s2 of
                     (Inl e, s3) \<Rightarrow> Some (Inl e, s3)
                   | (Inr pts, s3) \<Rightarrow>
                       (case close_scope s3 of
                          (False, s4) \<Rightarrow> Some (Inl ScopeCloseError, s4)
                        | (True, s4) \<Rightarrow>
                            Some (Inr None,
                                  add_path \<lparr>points = pts, is_closed = False\<rparr> s4))))"

text \<open>Lines 360 to 593. \<open>None\<close> is a call that never returns.\<close>

definition function_curve_distance ::
  "double_arithmetic \<Rightarrow> distance_fn \<Rightarrow> translate_fn \<Rightarrow> call_binder \<Rightarrow> interpreter
     \<Rightarrow> outcome option" where
  "function_curve_distance ar distance_to translate_horizontally_by interpret_arguments s0 =
     (case interpret_arguments (Some [''from'', ''to'']) s0 of
        (None, s) \<Rightarrow> Some (Inl ArgumentsFailed, s)
      | (Some interpreted_arguments, s) \<Rightarrow>
          (case pol_value_for_parameter ''from'' interpreted_arguments of
             None \<Rightarrow> Some (Inl (ParameterFailed ''from''), s)
           | Some from \<Rightarrow>
               (case pol_value_for_parameter ''to'' interpreted_arguments of
                  None \<Rightarrow> Some (Inl (ParameterFailed ''to''), s)
                | Some to \<Rightarrow>
                    curve_distance_path ar distance_to translate_horizontally_by
                      interpret_arguments from to s)))"

section \<open>\<^verbatim>\<open>function_random\<close>, \<^verbatim>\<open>function_set_resolution\<close>, \<^verbatim>\<open>function_theta\<close>\<close>

text \<open>
  \<^verbatim>\<open>std::uniform_real_distribution<double> distribution(from, to)\<close> applied to the
  generator: the standard library scales a canonical variate \<open>u\<close> of the interval from
  0 (included) to 1 (excluded) into the range. The variate drawn in the call is a
  parameter of the handler.
\<close>

definition uniform_real_distribution :: "real \<Rightarrow> real \<Rightarrow> real \<Rightarrow> real" where
  "uniform_real_distribution a b u = u * (b - a) + a"

text \<open>Lines 814 to 868. The two fetches are joined by \<^verbatim>\<open>||\<close>: the second one runs only
  when the first one succeeded.\<close>

definition function_random :: "real \<Rightarrow> call_binder \<Rightarrow> interpreter \<Rightarrow> outcome" where
  "function_random u interpret_arguments s0 =
     (case interpret_arguments None s0 of
        (None, s) \<Rightarrow> (Inl ArgumentsFailed, s)
      | (Some interpreted_arguments, s) \<Rightarrow>
          (case number_value_for_parameter ''from'' interpreted_arguments of
             None \<Rightarrow> (Inl (ParameterFailed ''from''), s)
           | Some from \<Rightarrow>
               (case number_value_for_parameter ''to'' interpreted_arguments of
                  None \<Rightarrow> (Inl (ParameterFailed ''to''), s)
                | Some to \<Rightarrow>
                    if to < from then (Inl InvalidRange, s)
                    else (Inr (Some (Number (uniform_real_distribution from to u))), s))))"

text \<open>Lines 1028 to 1070.\<close>

definition function_set_resolution :: "call_binder \<Rightarrow> interpreter \<Rightarrow> outcome" where
  "function_set_resolution interpret_arguments s0 =
     (case interpret_arguments None s0 of
        (None, s) \<Rightarrow> (Inl ArgumentsFailed, s)
      | (Some interpreted_arguments, s) \<Rightarrow>
          (case number_value_for_parameter ''x'' interpreted_arguments of
             None \<Rightarrow> (Inl (ParameterFailed ''x''), s)
           | Some x \<Rightarrow>
               if \<not> (x > 0) then (Inl InvalidResolution, s)
               else (Inr (Some (Number x)), s\<lparr>canvas_resolution := x\<rparr>)))"

text \<open>Lines 1171 to 1241. \<^verbatim>\<open>Pol::theta\<close> is not in the source file; it is the parameter
  \<open>theta\<close> of the handler.\<close>

definition function_theta ::
  "(real \<Rightarrow> real \<Rightarrow> real \<Rightarrow> real) \<Rightarrow> call_binder \<Rightarrow> interpreter \<Rightarrow> outcome" where
  "function_theta theta interpret_arguments s0 =
     (case interpret_arguments None s0 of
        (None, s) \<Rightarrow> (Inl ArgumentsFailed, s)
      | (Some interpreted_arguments, s) \<Rightarrow>
          (case number_value_for_parameter ''r1'' interpreted_arguments of
             None \<Rightarrow> (Inl (ParameterFailed ''r1''), s)
           | Some r_1 \<Rightarrow>
               (case number_value_for_parameter ''r2'' interpreted_arguments of
                  None \<Rightarrow> (Inl (ParameterFailed ''r2''), s)
                | Some r_2 \<Rightarrow>
                    (case number_value_for_parameter ''R'' interpreted_arguments of
                       None \<Rightarrow> (Inl (ParameterFailed ''R''), s)
                     | Some R \<Rightarrow>
                         if r_1 > R \<or> r_2 > R then (Inl InvalidTriangle, s)
                         else if r_1 + r_2 < R then (Inl InvalidTriangle, s)
                         else
                           let t = theta r_1 r_2 R
                           in if t < 0 then (Inl NumericalFailure, s)
                              else (Inr (Some (Number t)), s)))))"

section \<open>Concrete calls\<close>

text \<open>
  A call node whose argument expressions are literals: the binder returns the requested
  arguments and fails, without touching the state, when a requested name is not among
  the arguments of the call.
\<close>

definition literal_call :: "(string \<times> value) list \<Rightarrow> call_binder" where
  "literal_call arguments names s =
     (case names of
        None \<Rightarrow> (Some arguments, s)
      | Some ns \<Rightarrow>
          if list_all (\<lambda>n. map_of arguments n \<noteq> None) ns
          then (Some (filter (\<lambda>(k, v). k \<in> set ns) arguments), s)
          else (None, s))"

definition pol_literal :: "real \<Rightarrow> real \<Rightarrow> value" where
  "pol_literal x y = current_point x y"

text \<open>An interpreter with the root frame only, an empty canvas and resolution 100.\<close>

definition canvas0 :: interpreter where
  "canvas0 = \<lparr>scopes = [[]], canvas_resolution = 100, canvas_paths = []\<rparr>"

text \<open>
  Stand-ins for the two geometric primitives, to run \<^verbatim>\<open>curve_distance\<close> on concrete
  calls: on the ray of angle 0 they are the distance of two points and the translation
  along the ray.
\<close>

definition ray_distance_to :: distance_fn where
  "ray_distance_to p q = \<bar>pol_r p - pol_r q\<bar>"

definition ray_translate :: translate_fn where
  "ray_translate distance p = Pol (pol_r p + distance) (pol_phi p)"

section \<open>What the loops compute\<close>

text \<open>
  The radii that one round of the loop of lines 282 to 303 pushes for the radius it is
  at: the radius itself and, when it lies below the limit \<open>from.r + 5 * step_size\<close>,
  the radii \<open>radius + additional_step_size\<close>, \<open>radius + 2 * additional_step_size\<close>,
  and so on below \<open>radius + step_size\<close>.
\<close>

definition sample_block :: "real \<Rightarrow> real \<Rightarrow> real \<Rightarrow> real \<Rightarrow> real list" where
  "sample_block limit step_size additional_step_size radius =
     radius # (if radius < limit
               then map (\<lambda>j. radius + additional_step_size + real j * additional_step_size)
                      [0..<nat \<lceil>(step_size - additional_step_size) / additional_step_size\<rceil>]
               else [])"

text \<open>
  The per-sample construction of \<^verbatim>\<open>curve_distance\<close> in the words of the
  specification: the inverse transform chain rotates by the negative of the second
  rotation angle, translates horizontally by the negative of the translation distance and
  rotates by the negative of the first rotation angle; the offset point lies at
  \<open>(|distance|, \<pi>/2)\<close> when the distance is not negative and at
  \<open>(|distance|, 3\<pi>/2)\<close> when it is.
\<close>

definition inverse_transform_chain ::
  "translate_fn \<Rightarrow> real \<Rightarrow> real \<Rightarrow> real \<Rightarrow> pol \<Rightarrow> pol" where
  "inverse_transform_chain translate_horizontally_by rotation_angle translation_distance
       second_rotation_angle p =
     rotate_by (- rotation_angle)
       (translate_horizontally_by (- translation_distance)
          (rotate_by (- second_rotation_angle) p))"

definition offset_point :: "real \<Rightarrow> pol" where
  "offset_point distance =
     (if distance \<ge> 0 then Pol \<bar>distance\<bar> (pi / 2) else Pol \<bar>distance\<bar> (3 * pi / 2))"


subsection \<open>The loops that collect the radii\<close>

lemma exact_arithmetic_operations [simp]:
  "dadd exact_arithmetic = (+)"
  "dsub exact_arithmetic = (-)"
  "dmul exact_arithmetic = (*)"
  "ddiv exact_arithmetic = (/)"
  by (simp_all add: exact_arithmetic_def)


text \<open>Without rounding, each of the three loops ends when its increment is positive, and
  the radii it collects are the multiples of the increment counted from its start.\<close>

lemma ceiling_positive_step:
  fixes a :: real
  assumes "0 < a" and "x < bound"
  shows "nat \<lceil>(bound - x) / a\<rceil> = Suc (nat \<lceil>(bound - (x + a)) / a\<rceil>)"
proof -
  have eq: "(bound - (x + a)) / a = (bound - x) / a - 1"
    using assms(1) by (simp add: field_simps)
  have "0 < (bound - x) / a" using assms by simp
  then have "0 < \<lceil>(bound - x) / a\<rceil>" by linarith
  then show ?thesis unfolding eq by (simp add: ceiling_diff_one nat_diff_distrib)
qed

lemma ceiling_done:
  fixes a :: real
  assumes "0 < a" and "\<not> x < bound"
  shows "nat \<lceil>(bound - x) / a\<rceil> = 0"
proof -
  have "(bound - x) / a \<le> 0" using assms by (simp add: field_simps)
  then have "\<lceil>(bound - x) / a\<rceil> \<le> 0" by linarith
  then show ?thesis by simp
qed

lemma map_upt_shift:
  "map f [0..<Suc n] = f 0 # map (\<lambda>k. f (Suc k)) [0..<n]"
  by (simp add: upt_conv_Cons map_Suc_upt [symmetric] del: upt_Suc)

lemma additional_radii_closed:
  assumes "0 < a"
  shows "additional_radii exact_arithmetic bound a x acc
           = Some (acc @ map (\<lambda>j. x + real j * a) [0..<nat \<lceil>(bound - x) / a\<rceil>])"
proof (induction "nat \<lceil>(bound - x) / a\<rceil>" arbitrary: x acc)
  case 0
  have "\<not> x < bound"
  proof
    assume "x < bound"
    from ceiling_positive_step [OF assms this] 0 show False by simp
  qed
  then show ?case using 0 by (subst additional_radii.simps) simp
next
  case (Suc n)
  have lt: "x < bound"
  proof (rule ccontr)
    assume "\<not> x < bound"
    from ceiling_done [OF assms this] Suc.hyps(2) show False by simp
  qed
  from ceiling_positive_step [OF assms lt] Suc.hyps(2)
  have n: "n = nat \<lceil>(bound - (x + a)) / a\<rceil>" by simp
  have "additional_radii exact_arithmetic bound a x acc = additional_radii exact_arithmetic bound a (x + a) (acc @ [x])"
    using lt by (subst additional_radii.simps) simp
  also have "\<dots> = Some ((acc @ [x]) @ map (\<lambda>j. (x + a) + real j * a) [0..<n])"
    using Suc.hyps(1) [OF n] n by simp
  also have "(acc @ [x]) @ map (\<lambda>j. (x + a) + real j * a) [0..<n]
               = acc @ map (\<lambda>j. x + real j * a) [0..<Suc n]"
    unfolding map_upt_shift [of "\<lambda>j. x + real j * a"] by (simp add: algebra_simps)
  finally show ?case using Suc.hyps(2) by simp
qed

lemma distance_radii_closed:
  assumes "0 < a"
  shows "distance_radii exact_arithmetic bound a x acc
           = Some (acc @ map (\<lambda>j. x + real j * a) [0..<nat \<lceil>(bound - x) / a\<rceil>])"
proof (induction "nat \<lceil>(bound - x) / a\<rceil>" arbitrary: x acc)
  case 0
  have "\<not> x < bound"
  proof
    assume "x < bound"
    from ceiling_positive_step [OF assms this] 0 show False by simp
  qed
  then show ?case using 0 by (subst distance_radii.simps) simp
next
  case (Suc n)
  have lt: "x < bound"
  proof (rule ccontr)
    assume "\<not> x < bound"
    from ceiling_done [OF assms this] Suc.hyps(2) show False by simp
  qed
  from ceiling_positive_step [OF assms lt] Suc.hyps(2)
  have n: "n = nat \<lceil>(bound - (x + a)) / a\<rceil>" by simp
  have "distance_radii exact_arithmetic bound a x acc = distance_radii exact_arithmetic bound a (x + a) (acc @ [x])"
    using lt by (subst distance_radii.simps) simp
  also have "\<dots> = Some ((acc @ [x]) @ map (\<lambda>j. (x + a) + real j * a) [0..<n])"
    using Suc.hyps(1) [OF n] n by simp
  also have "(acc @ [x]) @ map (\<lambda>j. (x + a) + real j * a) [0..<n]
               = acc @ map (\<lambda>j. x + real j * a) [0..<Suc n]"
    unfolding map_upt_shift [of "\<lambda>j. x + real j * a"] by (simp add: algebra_simps)
  finally show ?case using Suc.hyps(2) by simp
qed

lemma floor_positive_step:
  fixes s :: real
  assumes "0 < s" and "x \<le> t"
  shows "nat (\<lfloor>(t - x) / s\<rfloor> + 1) = Suc (nat (\<lfloor>(t - (x + s)) / s\<rfloor> + 1))"
proof -
  have eq: "(t - (x + s)) / s = (t - x) / s - 1"
    using assms(1) by (simp add: field_simps)
  have "0 \<le> (t - x) / s" using assms by simp
  then have "0 \<le> \<lfloor>(t - x) / s\<rfloor>" by simp
  then show ?thesis unfolding eq by (simp add: nat_add_distrib)
qed

lemma floor_done:
  fixes s :: real
  assumes "0 < s" and "\<not> x \<le> t"
  shows "nat (\<lfloor>(t - x) / s\<rfloor> + 1) = 0"
proof -
  have "(t - x) / s < 0" using assms by (simp add: field_simps)
  then have "\<lfloor>(t - x) / s\<rfloor> < 0" by linarith
  then have "\<lfloor>(t - x) / s\<rfloor> + 1 \<le> 0" by linarith
  then show ?thesis by (simp only: nat_le_0)
qed

lemma angle_radii_closed:
  assumes "0 < s" and "0 < a"
  shows "angle_radii exact_arithmetic f t s thr a x acc
           = Some (acc @ concat (map (\<lambda>k. sample_block (f + thr) s a (x + real k * s))
                                   [0..<nat (\<lfloor>(t - x) / s\<rfloor> + 1)]))"
proof (induction "nat (\<lfloor>(t - x) / s\<rfloor> + 1)" arbitrary: x acc)
  case 0
  have "\<not> x \<le> t"
  proof
    assume "x \<le> t"
    from floor_positive_step [OF assms(1) this] 0 show False by simp
  qed
  then show ?case using 0 by (subst angle_radii.simps) simp
next
  case (Suc n)
  have le: "x \<le> t"
  proof (rule ccontr)
    assume "\<not> x \<le> t"
    from floor_done [OF assms(1) this] Suc.hyps(2) show False by simp
  qed
  from floor_positive_step [OF assms(1) le] Suc.hyps(2)
  have n: "n = nat (\<lfloor>(t - (x + s)) / s\<rfloor> + 1)" by simp
  have inner: "(if x < f + thr then additional_radii exact_arithmetic (x + s) a (x + a) (acc @ [x])
                else Some (acc @ [x])) = Some (acc @ sample_block (f + thr) s a x)"
    by (simp add: additional_radii_closed [OF assms(2)] sample_block_def)
  have "angle_radii exact_arithmetic f t s thr a x acc
          = angle_radii exact_arithmetic f t s thr a (x + s) (acc @ sample_block (f + thr) s a x)"
    using le
    by (subst angle_radii.simps, simp only: exact_arithmetic_operations inner) simp
  also have "\<dots> = Some ((acc @ sample_block (f + thr) s a x)
                       @ concat (map (\<lambda>k. sample_block (f + thr) s a ((x + s) + real k * s))
                                   [0..<n]))"
    using Suc.hyps(1) [OF n] n by simp
  also have "(acc @ sample_block (f + thr) s a x)
               @ concat (map (\<lambda>k. sample_block (f + thr) s a ((x + s) + real k * s)) [0..<n])
             = acc @ concat (map (\<lambda>k. sample_block (f + thr) s a (x + real k * s))
                               [0..<Suc n])"
    unfolding map_upt_shift [of "\<lambda>k. sample_block (f + thr) s a (x + real k * s)"]
    by (simp add: algebra_simps)
  finally show ?case using Suc.hyps(2) by simp
qed

subsection \<open>The loops over the samples\<close>

text \<open>The scope operations leave the canvas alone, and so do the sample loops when the
  evaluation of the arguments does.\<close>

lemma canvas_paths_scope_operations [simp]:
  "canvas_paths (open_new_scope s) = canvas_paths s"
  "canvas_paths (snd (define_variable_with_value name v s)) = canvas_paths s"
  "canvas_paths (set_value_for_variable name v scope s) = canvas_paths s"
  "canvas_paths (snd (close_scope s)) = canvas_paths s"
  by (simp_all add: open_new_scope_def define_variable_with_value_def Let_def
        set_value_for_variable_def close_scope_def)

lemma angle_samples_canvas_paths:
  assumes "\<And>names s. canvas_paths (snd (interpret_arguments names s)) = canvas_paths s"
  shows "canvas_paths (snd (angle_samples ar interpret_arguments from_phi current_scope radii pts s))
           = canvas_paths s"
proof (induction radii arbitrary: pts s)
  case Nil
  show ?case by simp
next
  case (Cons r radii)
  let ?s1 = "set_value_for_variable hidden_variable_name (current_point r from_phi)
               current_scope s"
  obtain res s2 where b: "interpret_arguments (Some [''angle'']) ?s1 = (res, s2)"
    by (cases "interpret_arguments (Some [''angle'']) ?s1")
  from assms [of "Some [''angle'']" ?s1] b have "canvas_paths s2 = canvas_paths s" by simp
  then show ?case using b Cons.IH
    by (simp add: Let_def split: option.splits)
qed

lemma distance_samples_canvas_paths:
  assumes "\<And>names s. canvas_paths (snd (interpret_arguments names s)) = canvas_paths s"
  shows "canvas_paths (snd (distance_samples translate_horizontally_by interpret_arguments
                              rotation_angle translation_distance second_rotation_angle
                              current_scope radii pts s))
           = canvas_paths s"
proof (induction radii arbitrary: pts s)
  case Nil
  show ?case by simp
next
  case (Cons r radii)
  let ?p = "current_helper_point_on_line translate_horizontally_by rotation_angle
              translation_distance second_rotation_angle r"
  let ?s1 = "set_value_for_variable hidden_variable_name
               (current_point (pol_r ?p) (pol_phi ?p)) current_scope s"
  obtain res s2 where b: "interpret_arguments (Some [''distance'']) ?s1 = (res, s2)"
    by (cases "interpret_arguments (Some [''distance'']) ?s1")
  from assms [of "Some [''distance'']" ?s1] b have "canvas_paths s2 = canvas_paths s" by simp
  then show ?case using b Cons.IH
    by (simp add: Let_def split: option.splits)
qed

lemma angle_samples_errors:
  "fst (angle_samples ar interpret_arguments from_phi current_scope radii pts s) = Inl e
     \<Longrightarrow> e = ArgumentsFailed \<or> e = ParameterFailed ''angle''"
proof (induction radii arbitrary: pts s)
  case Nil
  then show ?case by simp
next
  case (Cons r radii)
  then show ?case
    by (auto simp: Let_def split: prod.splits option.splits)
qed

lemma distance_samples_errors:
  "fst (distance_samples translate_horizontally_by interpret_arguments rotation_angle
          translation_distance second_rotation_angle current_scope radii pts s) = Inl e
     \<Longrightarrow> e = ArgumentsFailed \<or> e = ParameterFailed ''distance''"
proof (induction radii arbitrary: pts s)
  case Nil
  then show ?case by simp
next
  case (Cons r radii)
  then show ?case
    by (auto simp: Let_def split: prod.splits option.splits)
qed


lemma curve_angle_path_failure:
  assumes "\<And>names s. canvas_paths (snd (interpret_arguments names s)) = canvas_paths s"
    and "curve_angle_path ar interpret_arguments from_p to_p s = Some (Inl e, s')"
  shows "canvas_paths s' = canvas_paths s"
proof (cases "ddiv ar (dsub ar (pol_r to_p) (pol_r from_p)) (canvas_resolution s) > 0")
  case False
  with assms(2) show ?thesis by (simp add: curve_angle_path_def Let_def)
next
  case True
  let ?st = "ddiv ar (dsub ar (pol_r to_p) (pol_r from_p)) (canvas_resolution s)"
  obtain current_scope s2 where d:
    "define_variable_with_value hidden_variable_name (current_point (pol_r from_p) (pol_phi from_p))
       (open_new_scope s) = (current_scope, s2)"
    by (cases "define_variable_with_value hidden_variable_name
                 (current_point (pol_r from_p) (pol_phi from_p)) (open_new_scope s)")
  have s2: "canvas_paths s2 = canvas_paths s"
    using canvas_paths_scope_operations(2)
            [of hidden_variable_name "current_point (pol_r from_p) (pol_phi from_p)"
                "open_new_scope s"] d
    by simp
  from assms(2) True d obtain radii where
    r: "angle_radii ar (pol_r from_p) (pol_r to_p) ?st (dmul ar 5 ?st)
          (ddiv ar ?st (ddiv ar (canvas_resolution s) 5)) (pol_r from_p) [] = Some radii"
    by (auto simp: curve_angle_path_def Let_def split: option.splits)
  obtain res s3 where
    a: "angle_samples ar interpret_arguments (pol_phi from_p) current_scope radii [] s2
          = (res, s3)"
    by (cases "angle_samples ar interpret_arguments (pol_phi from_p) current_scope radii [] s2")
  have s3: "canvas_paths s3 = canvas_paths s"
    using angle_samples_canvas_paths
            [where interpret_arguments = interpret_arguments and from_phi = "pol_phi from_p"
               and current_scope = current_scope and radii = radii and pts = "[]" and s = s2
               and ar = ar,
             OF assms(1)]
      a s2 by simp
  show ?thesis
  proof (cases res)
    case (Inl e')
    with assms(2) True d r a have "s' = s3"
      by (simp add: curve_angle_path_def Let_def)
    with s3 show ?thesis by simp
  next
    case (Inr pts)
    obtain ok s4 where c: "close_scope s3 = (ok, s4)" by (cases "close_scope s3")
    have s4: "canvas_paths s4 = canvas_paths s"
      using canvas_paths_scope_operations(4) [of s3] c s3 by simp
    from assms(2) True d r a Inr c have "s' = s4"
      by (cases ok) (simp_all add: curve_angle_path_def Let_def)
    with s4 show ?thesis by simp
  qed
qed

lemma curve_angle_path_not_step_error:
  assumes "curve_angle_path ar interpret_arguments from_p to_p s
             = Some (Inl NonPositiveStep, s')"
  shows "\<not> ddiv ar (dsub ar (pol_r to_p) (pol_r from_p)) (canvas_resolution s) > 0"
proof
  let ?st = "ddiv ar (dsub ar (pol_r to_p) (pol_r from_p)) (canvas_resolution s)"
  assume pos: "?st > 0"
  obtain current_scope s2 where d:
    "define_variable_with_value hidden_variable_name (current_point (pol_r from_p) (pol_phi from_p))
       (open_new_scope s) = (current_scope, s2)"
    by (cases "define_variable_with_value hidden_variable_name
                 (current_point (pol_r from_p) (pol_phi from_p)) (open_new_scope s)")
  from assms pos d obtain radii where
    r: "angle_radii ar (pol_r from_p) (pol_r to_p) ?st (dmul ar 5 ?st)
          (ddiv ar ?st (ddiv ar (canvas_resolution s) 5)) (pol_r from_p) [] = Some radii"
    by (auto simp: curve_angle_path_def Let_def split: option.splits)
  obtain res s3 where
    a: "angle_samples ar interpret_arguments (pol_phi from_p) current_scope radii [] s2
          = (res, s3)"
    by (cases "angle_samples ar interpret_arguments (pol_phi from_p) current_scope radii [] s2")
  show False
  proof (cases res)
    case (Inl e')
    with assms pos d r a have "e' = NonPositiveStep"
      by (simp add: curve_angle_path_def Let_def)
    moreover from angle_samples_errors [of ar interpret_arguments "pol_phi from_p" current_scope
                    radii "[]" s2 e'] a Inl
    have "e' = ArgumentsFailed \<or> e' = ParameterFailed ''angle''" by simp
    ultimately show False by auto
  next
    case (Inr pts)
    obtain ok s4 where c: "close_scope s3 = (ok, s4)" by (cases "close_scope s3")
    from assms pos d r a Inr c show False
      by (cases ok) (simp_all add: curve_angle_path_def Let_def)
  qed
qed

lemma define_in_new_scope:
  "define_variable_with_value name v (open_new_scope s)
     = (length (scopes s), s\<lparr>scopes := scopes s @ [[(name, v)]]\<rparr>)"
  by (simp add: define_variable_with_value_def open_new_scope_def Let_def)

lemma curve_distance_path_outcome:
  assumes pos: "ddiv ar (distance_to from_p to_p) (canvas_resolution s) > 0"
    and mv: "initial_movement translate_horizontally_by from_p to_p
               = (rotation_angle, translation_distance, translated_to)"
    and r: "distance_radii ar (pol_r translated_to)
              (ddiv ar (distance_to from_p to_p) (canvas_resolution s)) 0 [] = Some radii"
  shows "\<exists>res s3.
           distance_samples translate_horizontally_by interpret_arguments rotation_angle
               translation_distance (- pol_phi translated_to) (length (scopes s)) radii []
               (s\<lparr>scopes := scopes s @ [[(hidden_variable_name,
                                             current_point (pol_r from_p) (pol_phi from_p))]]\<rparr>)
             = (res, s3)
         \<and> curve_distance_path ar distance_to translate_horizontally_by interpret_arguments
               from_p to_p s
             = Some (case res of
                       Inl e \<Rightarrow> (Inl e, s3)
                     | Inr pts \<Rightarrow>
                         if fst (close_scope s3)
                         then (Inr None, add_path \<lparr>points = pts, is_closed = False\<rparr>
                                           (snd (close_scope s3)))
                         else (Inl ScopeCloseError, snd (close_scope s3)))"
proof -
  let ?s2 = "s\<lparr>scopes := scopes s @ [[(hidden_variable_name,
                                         current_point (pol_r from_p) (pol_phi from_p))]]\<rparr>"
  note d = define_in_new_scope [of hidden_variable_name
                                  "current_point (pol_r from_p) (pol_phi from_p)" s]
  obtain res s3 where
    a: "distance_samples translate_horizontally_by interpret_arguments rotation_angle
          translation_distance (- pol_phi translated_to) (length (scopes s)) radii [] ?s2
        = (res, s3)"
    by (cases "distance_samples translate_horizontally_by interpret_arguments rotation_angle
                 translation_distance (- pol_phi translated_to) (length (scopes s)) radii []
                 ?s2")
  obtain ok s4 where c: "close_scope s3 = (ok, s4)" by (cases "close_scope s3")
  have "curve_distance_path ar distance_to translate_horizontally_by interpret_arguments
          from_p to_p s
          = Some (case res of
                    Inl e \<Rightarrow> (Inl e, s3)
                  | Inr pts \<Rightarrow>
                      if fst (close_scope s3)
                      then (Inr None, add_path \<lparr>points = pts, is_closed = False\<rparr>
                                        (snd (close_scope s3)))
                      else (Inl ScopeCloseError, snd (close_scope s3)))"
    using pos mv d r a c
    by (cases res; cases ok) (simp_all add: curve_distance_path_def Let_def)
  with a show ?thesis by blast
qed

lemma curve_distance_path_failure:
  assumes n: "\<And>names s. canvas_paths (snd (interpret_arguments names s)) = canvas_paths s"
    and f: "curve_distance_path ar distance_to translate_horizontally_by interpret_arguments
              from_p to_p s = Some (Inl e, s')"
  shows "canvas_paths s' = canvas_paths s"
proof (cases "ddiv ar (distance_to from_p to_p) (canvas_resolution s) > 0")
  case False
  with f show ?thesis by (simp add: curve_distance_path_def Let_def)
next
  case True
  obtain rotation_angle translation_distance translated_to where
    mv: "initial_movement translate_horizontally_by from_p to_p
           = (rotation_angle, translation_distance, translated_to)"
    by (cases "initial_movement translate_horizontally_by from_p to_p")
  let ?s2 = "s\<lparr>scopes := scopes s @ [[(hidden_variable_name,
                                         current_point (pol_r from_p) (pol_phi from_p))]]\<rparr>"
  from f True mv obtain radii where
    r: "distance_radii ar (pol_r translated_to)
          (ddiv ar (distance_to from_p to_p) (canvas_resolution s)) 0 [] = Some radii"
    by (auto simp: curve_distance_path_def Let_def define_in_new_scope split: option.splits)
  from curve_distance_path_outcome
         [where distance_to = distance_to and from_p = from_p and to_p = to_p and s = s
            and interpret_arguments = interpret_arguments and ar = ar, OF True mv r]
  obtain res s3 where
    a: "distance_samples translate_horizontally_by interpret_arguments rotation_angle
          translation_distance (- pol_phi translated_to) (length (scopes s)) radii [] ?s2
        = (res, s3)"
    and o: "curve_distance_path ar distance_to translate_horizontally_by interpret_arguments
              from_p to_p s
            = Some (case res of
                      Inl e \<Rightarrow> (Inl e, s3)
                    | Inr pts \<Rightarrow>
                        if fst (close_scope s3)
                        then (Inr None, add_path \<lparr>points = pts, is_closed = False\<rparr>
                                          (snd (close_scope s3)))
                        else (Inl ScopeCloseError, snd (close_scope s3)))"
    by blast
  have s3: "canvas_paths s3 = canvas_paths s"
    using distance_samples_canvas_paths
            [where interpret_arguments = interpret_arguments
               and translate_horizontally_by = translate_horizontally_by
               and rotation_angle = rotation_angle
               and translation_distance = translation_distance
               and second_rotation_angle = "- pol_phi translated_to"
               and current_scope = "length (scopes s)" and radii = radii and pts = "[]"
               and s = ?s2, OF n] a
    by simp
  from f o have "s' = s3 \<or> s' = snd (close_scope s3)"
    by (cases res) (auto split: if_splits)
  with s3 show ?thesis by auto
qed

lemma curve_distance_path_not_step_error:
  assumes f: "curve_distance_path ar distance_to translate_horizontally_by interpret_arguments
                from_p to_p s = Some (Inl NonPositiveStep, s')"
  shows "\<not> ddiv ar (distance_to from_p to_p) (canvas_resolution s) > 0"
proof
  assume pos: "ddiv ar (distance_to from_p to_p) (canvas_resolution s) > 0"
  obtain rotation_angle translation_distance translated_to where
    mv: "initial_movement translate_horizontally_by from_p to_p
           = (rotation_angle, translation_distance, translated_to)"
    by (cases "initial_movement translate_horizontally_by from_p to_p")
  let ?s2 = "s\<lparr>scopes := scopes s @ [[(hidden_variable_name,
                                         current_point (pol_r from_p) (pol_phi from_p))]]\<rparr>"
  from f pos mv obtain radii where
    r: "distance_radii ar (pol_r translated_to)
          (ddiv ar (distance_to from_p to_p) (canvas_resolution s)) 0 [] = Some radii"
    by (auto simp: curve_distance_path_def Let_def define_in_new_scope split: option.splits)
  from curve_distance_path_outcome
         [where distance_to = distance_to and from_p = from_p and to_p = to_p and s = s
            and interpret_arguments = interpret_arguments and ar = ar, OF pos mv r]
  obtain res s3 where
    a: "distance_samples translate_horizontally_by interpret_arguments rotation_angle
          translation_distance (- pol_phi translated_to) (length (scopes s)) radii [] ?s2
        = (res, s3)"
    and o: "curve_distance_path ar distance_to translate_horizontally_by interpret_arguments
              from_p to_p s
            = Some (case res of
                      Inl e \<Rightarrow> (Inl e, s3)
                    | Inr pts \<Rightarrow>
                        if fst (close_scope s3)
                        then (Inr None, add_path \<lparr>points = pts, is_closed = False\<rparr>
                                          (snd (close_scope s3)))
                        else (Inl ScopeCloseError, snd (close_scope s3)))"
    by blast
  from f o have "res = Inl NonPositiveStep"
    by (cases res) (auto split: if_splits)
  with a distance_samples_errors
         [of translate_horizontally_by interpret_arguments rotation_angle translation_distance
             "- pol_phi translated_to" "length (scopes s)" radii "[]" ?s2 NonPositiveStep]
  show False by simp
qed

subsection \<open>What one call computes\<close>

lemma pol_rewrap [simp]: "Pol (pol_r p) (pol_phi p) = p"
  by (cases p) simp













text \<open>Both curve handlers return on every call: the step test guards the loops that
  collect the radii.\<close>

lemma order_endpoints_ordered:
  "pol_r (fst (order_endpoints from_p to_p)) \<le> pol_r (snd (order_endpoints from_p to_p))"
  by (simp add: order_endpoints_def Let_def)

lemma curve_angle_path_returns:
  assumes le: "pol_r from_p \<le> pol_r to_p"
  shows "\<exists>out. curve_angle_path exact_arithmetic interpret_arguments from_p to_p s = Some out"
proof (cases "(pol_r to_p - pol_r from_p) / canvas_resolution s > 0")
  case False
  then show ?thesis by (simp add: curve_angle_path_def Let_def)
next
  case True
  let ?st = "(pol_r to_p - pol_r from_p) / canvas_resolution s"
  from True le have res: "0 < canvas_resolution s"
    by (simp add: zero_less_divide_iff)
  then have "0 < canvas_resolution s / 5" by simp
  with True have a: "0 < ?st / (canvas_resolution s / 5)" by (rule divide_pos_pos)
  obtain radii where
    r: "angle_radii exact_arithmetic (pol_r from_p) (pol_r to_p) ?st (5 * ?st)
          (?st / (canvas_resolution s / 5)) (pol_r from_p) [] = Some radii"
    using angle_radii_closed [OF True a] by blast
  let ?s2 = "s\<lparr>scopes := scopes s @ [[(hidden_variable_name,
                                         current_point (pol_r from_p) (pol_phi from_p))]]\<rparr>"
  obtain res s3 where
    sm: "angle_samples exact_arithmetic interpret_arguments (pol_phi from_p)
           (length (scopes s)) radii [] ?s2 = (res, s3)"
    by (cases "angle_samples exact_arithmetic interpret_arguments (pol_phi from_p)
                 (length (scopes s)) radii [] ?s2")
  obtain ok s4 where c: "close_scope s3 = (ok, s4)" by (cases "close_scope s3")
  show ?thesis
    unfolding curve_angle_path_def Let_def exact_arithmetic_operations
    by (cases res; cases ok)
       (simp_all only: True simp_thms if_False define_in_new_scope prod.case r option.case
          sm sum.case c bool.case, blast+)
qed

lemma function_curve_angle_returns:
  "\<exists>out. function_curve_angle exact_arithmetic interpret_arguments s0 = Some out"
proof -
  obtain res s where b: "interpret_arguments (Some [''from'', ''to'']) s0 = (res, s)"
    by (cases "interpret_arguments (Some [''from'', ''to'']) s0")
  show ?thesis
  proof (cases res)
    case None
    with b show ?thesis by (simp add: function_curve_angle_def)
  next
    case (Some interpreted_arguments)
    show ?thesis
    proof (cases "pol_value_for_parameter ''from'' interpreted_arguments")
      case None
      with b Some show ?thesis by (simp add: function_curve_angle_def)
    next
      case from_p: (Some from_p)
      show ?thesis
      proof (cases "pol_value_for_parameter ''to'' interpreted_arguments")
        case None
        with b Some from_p show ?thesis by (simp add: function_curve_angle_def)
      next
        case to_p: (Some to_p)
        show ?thesis
        proof (cases "pol_phi from_p = pol_phi to_p")
          case False
          with b Some from_p to_p show ?thesis by (simp add: function_curve_angle_def)
        next
          case True
          with b Some from_p to_p
          have "function_curve_angle exact_arithmetic interpret_arguments s0
                  = curve_angle_path exact_arithmetic interpret_arguments
                      (fst (order_endpoints from_p to_p)) (snd (order_endpoints from_p to_p)) s"
            by (simp add: function_curve_angle_def split: prod.splits)
          with curve_angle_path_returns [OF order_endpoints_ordered] show ?thesis
            by simp
        qed
      qed
    qed
  qed
qed

lemma function_curve_distance_returns:
  "\<exists>out. function_curve_distance exact_arithmetic distance_to translate_horizontally_by interpret_arguments s0
           = Some out"
proof -
  obtain res s where b: "interpret_arguments (Some [''from'', ''to'']) s0 = (res, s)"
    by (cases "interpret_arguments (Some [''from'', ''to'']) s0")
  show ?thesis
  proof (cases res)
    case None
    with b show ?thesis by (simp add: function_curve_distance_def)
  next
    case (Some interpreted_arguments)
    show ?thesis
    proof (cases "pol_value_for_parameter ''from'' interpreted_arguments")
      case None
      with b Some show ?thesis by (simp add: function_curve_distance_def)
    next
      case from_p: (Some from_p)
      show ?thesis
      proof (cases "pol_value_for_parameter ''to'' interpreted_arguments")
        case None
        with b Some from_p show ?thesis by (simp add: function_curve_distance_def)
      next
        case to_p: (Some to_p)
        with b Some from_p
        have run: "function_curve_distance exact_arithmetic distance_to translate_horizontally_by
                     interpret_arguments s0
                   = curve_distance_path exact_arithmetic distance_to translate_horizontally_by
                       interpret_arguments from_p to_p s"
          by (simp add: function_curve_distance_def)
        show ?thesis
        proof (cases "distance_to from_p to_p / canvas_resolution s > 0")
          case False
          with run show ?thesis by (simp add: curve_distance_path_def Let_def)
        next
          case True
          obtain rotation_angle translation_distance translated_to where
            mv: "initial_movement translate_horizontally_by from_p to_p
                   = (rotation_angle, translation_distance, translated_to)"
            by (cases "initial_movement translate_horizontally_by from_p to_p")
          from True have pos: "ddiv exact_arithmetic (distance_to from_p to_p)
                                 (canvas_resolution s) > 0"
            by simp
          from distance_radii_closed [OF True] obtain radii where
            r: "distance_radii exact_arithmetic (pol_r translated_to)
                  (ddiv exact_arithmetic (distance_to from_p to_p) (canvas_resolution s)) 0 []
                = Some radii"
            by simp
          from curve_distance_path_outcome
                 [where distance_to = distance_to and from_p = from_p and to_p = to_p
                    and s = s and interpret_arguments = interpret_arguments
                    and ar = exact_arithmetic, OF pos mv r]
               run
          show ?thesis by auto
        qed
      qed
    qed
  qed
qed

lemmas run_call =
  literal_call_def pol_literal_def current_point_def pol_value_for_parameter_def
  number_value_for_parameter_def type_string_def hidden_variable_name_def
  open_new_scope_def define_variable_with_value_def set_value_for_variable_def
  close_scope_def add_path_def canvas0_def Let_def

section \<open>The curve built-ins\<close>

text \<open>
  C1. The scope of the hidden variable is opened before the loop over the samples and
  closed after it, and the two \<^verbatim>\<open>return false\<close> inside the loop leave the function in
  between. Here \<^verbatim>\<open>curve_angle\<close> is called with a string as its angle, and
  \<^verbatim>\<open>curve_distance\<close> without a distance: both calls fail in the first round of the loop
  and return with two frames on a scope stack that had one.
\<close>

theorem curve_failure_leaks_scope:
  "function_curve_angle exact_arithmetic
     (literal_call [(''from'', pol_literal 1 0), (''to'', pol_literal 2 0),
                    (''angle'', String ''x'')])
     (canvas0\<lparr>canvas_resolution := 1\<rparr>)
     = Some (Inl (ParameterFailed ''angle''),
             canvas0\<lparr>canvas_resolution := 1,
                      scopes := [[], [(''_p'', current_point 1 0)]]\<rparr>)
   \<and> function_curve_distance exact_arithmetic ray_distance_to ray_translate
       (literal_call [(''from'', pol_literal 1 0), (''to'', pol_literal 2 0)])
       (canvas0\<lparr>canvas_resolution := 1\<rparr>)
       = Some (Inl ArgumentsFailed,
               canvas0\<lparr>canvas_resolution := 1,
                        scopes := [[], [(''_p'', current_point 1 0)]]\<rparr>)
   \<and> length (scopes (canvas0\<lparr>canvas_resolution := 1\<rparr>)) = 1
   \<and> length (scopes (canvas0\<lparr>canvas_resolution := 1,
                               scopes := [[], [(''_p'', current_point 1 0)]]\<rparr>)) = 2"
  by (simp add: function_curve_angle_def curve_angle_path_def order_endpoints_def
        function_curve_distance_def curve_distance_path_def initial_movement_def
        current_helper_point_on_line_def
        ray_distance_to_def ray_translate_def rotate_by_def distance_radii.simps
        angle_radii.simps additional_radii.simps run_call)

text \<open>
  C2. Lines 211 to 215 assign \<open>to\<close> to \<open>from\<close> and then \<open>from\<close> to \<open>to\<close>, so
  both endpoints end up as the old \<open>to\<close>. With the endpoints \<open>(2, 0)\<close> and \<open>(1, 0)\<close>
  the step is 0 and the call fails with \<open>NonPositiveStep\<close>; with \<open>(1, 0)\<close> and
  \<open>(2, 0)\<close> it publishes a path.
\<close>

theorem curve_angle_swapped_endpoints:
  "order_endpoints (Pol 2 0) (Pol 1 0) = (Pol 1 0, Pol 1 0)
   \<and> function_curve_angle exact_arithmetic
       (literal_call [(''from'', pol_literal 2 0), (''to'', pol_literal 1 0),
                      (''angle'', Number 0)])
       (canvas0\<lparr>canvas_resolution := 1\<rparr>)
       = Some (Inl NonPositiveStep, canvas0\<lparr>canvas_resolution := 1\<rparr>)
   \<and> function_curve_angle exact_arithmetic
       (literal_call [(''from'', pol_literal 1 0), (''to'', pol_literal 2 0),
                      (''angle'', Number 0)])
       (canvas0\<lparr>canvas_resolution := 1\<rparr>)
       = Some (Inr None,
               add_path \<lparr>points = [Pol 1 0, Pol 2 0], is_closed = False\<rparr>
                 (canvas0\<lparr>canvas_resolution := 1\<rparr>))"
  by (simp add: function_curve_angle_def curve_angle_path_def order_endpoints_def
        angle_radii.simps additional_radii.simps run_call)




text \<open>
  C4. When \<open>from.phi \<noteq> to.phi\<close>, \<^verbatim>\<open>curve_angle\<close> reports \<open>InconsistentEndpoints\<close> and
  returns failure with the state the argument evaluation left. No failure of
  \<^verbatim>\<open>curve_angle\<close> or \<^verbatim>\<open>curve_distance\<close> adds a path to the canvas: when the evaluation
  of the argument expressions adds none, the paths of the canvas after a failed call are
  the paths before the call, whatever the operations of doubles return. And without
  rounding both handlers return on every call.
\<close>

theorem curve_failure_publishes_nothing:
  assumes "\<And>names s. canvas_paths (snd (interpret_arguments names s)) = canvas_paths s"
  shows "(\<forall>interpreted_arguments s from_p to_p.
            interpret_arguments (Some [''from'', ''to'']) s0 = (Some interpreted_arguments, s)
          \<and> pol_value_for_parameter ''from'' interpreted_arguments = Some from_p
          \<and> pol_value_for_parameter ''to'' interpreted_arguments = Some to_p
          \<and> pol_phi from_p \<noteq> pol_phi to_p
          \<longrightarrow> function_curve_angle ar interpret_arguments s0 = Some (Inl InconsistentEndpoints, s)
              \<and> canvas_paths s = canvas_paths s0)
       \<and> (\<forall>e s'. function_curve_angle ar interpret_arguments s0 = Some (Inl e, s')
                  \<longrightarrow> canvas_paths s' = canvas_paths s0)
       \<and> (\<forall>e s'. function_curve_distance ar distance_to translate_horizontally_by
                    interpret_arguments s0 = Some (Inl e, s')
                  \<longrightarrow> canvas_paths s' = canvas_paths s0)
       \<and> (\<exists>out. function_curve_angle exact_arithmetic interpret_arguments s0 = Some out)
       \<and> (\<exists>out. function_curve_distance exact_arithmetic distance_to
                   translate_horizontally_by interpret_arguments s0 = Some out)"
proof (intro conjI allI impI)
  show "\<exists>out. function_curve_angle exact_arithmetic interpret_arguments s0 = Some out"
    by (rule function_curve_angle_returns)
  show "\<exists>out. function_curve_distance exact_arithmetic distance_to
               translate_horizontally_by interpret_arguments s0 = Some out"
    by (rule function_curve_distance_returns)
next
  fix interpreted_arguments s from_p to_p
  assume h: "interpret_arguments (Some [''from'', ''to'']) s0 = (Some interpreted_arguments, s)
          \<and> pol_value_for_parameter ''from'' interpreted_arguments = Some from_p
          \<and> pol_value_for_parameter ''to'' interpreted_arguments = Some to_p
          \<and> pol_phi from_p \<noteq> pol_phi to_p"
  then show "function_curve_angle ar interpret_arguments s0 = Some (Inl InconsistentEndpoints, s)"
    by (simp add: function_curve_angle_def)
  from assms [of "Some [''from'', ''to'']" s0] h show "canvas_paths s = canvas_paths s0"
    by simp
next
  fix e s'
  assume f: "function_curve_angle ar interpret_arguments s0 = Some (Inl e, s')"
  obtain res s where b: "interpret_arguments (Some [''from'', ''to'']) s0 = (res, s)"
    by (cases "interpret_arguments (Some [''from'', ''to'']) s0")
  from assms [of "Some [''from'', ''to'']" s0] b have s: "canvas_paths s = canvas_paths s0"
    by simp
  show "canvas_paths s' = canvas_paths s0"
  proof (cases "\<exists>from_p to_p. function_curve_angle ar interpret_arguments s0
                                = curve_angle_path ar interpret_arguments from_p to_p s")
    case True
    then obtain from_p to_p where
      "curve_angle_path ar interpret_arguments from_p to_p s = Some (Inl e, s')"
      using f by auto
    from curve_angle_path_failure
           [where interpret_arguments = interpret_arguments, OF assms this] s
    show ?thesis by simp
  next
    case False
    have "s' = s"
    proof (cases res)
      case None
      with f b show ?thesis by (simp add: function_curve_angle_def)
    next
      case (Some interpreted_arguments)
      show ?thesis
      proof (cases "pol_value_for_parameter ''from'' interpreted_arguments")
        case None
        with f b Some show ?thesis by (simp add: function_curve_angle_def)
      next
        case from_p: (Some from_p)
        show ?thesis
        proof (cases "pol_value_for_parameter ''to'' interpreted_arguments")
          case None
          with f b Some from_p show ?thesis by (simp add: function_curve_angle_def)
        next
          case to_p: (Some to_p)
          show ?thesis
          proof (cases "pol_phi from_p = pol_phi to_p")
            case unequal: False
            with f b Some from_p to_p show ?thesis by (simp add: function_curve_angle_def)
          next
            case True
            with b Some from_p to_p
            have "function_curve_angle ar interpret_arguments s0
                    = curve_angle_path ar interpret_arguments
                        (fst (order_endpoints from_p to_p)) (snd (order_endpoints from_p to_p)) s"
              by (simp add: function_curve_angle_def split: prod.splits)
            with False show ?thesis by blast
          qed
        qed
      qed
    qed
    with s show ?thesis by simp
  qed
next
  fix e s'
  assume f: "function_curve_distance ar distance_to translate_horizontally_by
               interpret_arguments s0 = Some (Inl e, s')"
  obtain res s where b: "interpret_arguments (Some [''from'', ''to'']) s0 = (res, s)"
    by (cases "interpret_arguments (Some [''from'', ''to'']) s0")
  from assms [of "Some [''from'', ''to'']" s0] b have s: "canvas_paths s = canvas_paths s0"
    by simp
  show "canvas_paths s' = canvas_paths s0"
  proof (cases "\<exists>from_p to_p. function_curve_distance ar distance_to translate_horizontally_by
                                  interpret_arguments s0
                                = curve_distance_path ar distance_to translate_horizontally_by
                                    interpret_arguments from_p to_p s")
    case True
    then obtain from_p to_p where
      "curve_distance_path ar distance_to translate_horizontally_by interpret_arguments
         from_p to_p s = Some (Inl e, s')"
      using f by auto
    from curve_distance_path_failure
           [where interpret_arguments = interpret_arguments, OF assms this] s
    show ?thesis by simp
  next
    case False
    have "s' = s"
    proof (cases res)
      case None
      with f b show ?thesis by (simp add: function_curve_distance_def)
    next
      case (Some interpreted_arguments)
      show ?thesis
      proof (cases "pol_value_for_parameter ''from'' interpreted_arguments")
        case None
        with f b Some show ?thesis by (simp add: function_curve_distance_def)
      next
        case from_p: (Some from_p)
        show ?thesis
        proof (cases "pol_value_for_parameter ''to'' interpreted_arguments")
          case None
          with f b Some from_p show ?thesis by (simp add: function_curve_distance_def)
        next
          case to_p: (Some to_p)
          with b Some from_p
          have "function_curve_distance ar distance_to translate_horizontally_by
                  interpret_arguments s0
                  = curve_distance_path ar distance_to translate_horizontally_by
                      interpret_arguments from_p to_p s"
            by (simp add: function_curve_distance_def)
          with False show ?thesis by blast
        qed
      qed
    qed
    with s show ?thesis by simp
  qed
qed

theorem curve_failure_publishes_nothing_witness:
  "function_curve_angle exact_arithmetic
     (literal_call [(''from'', pol_literal 1 0), (''to'', pol_literal 2 1), (''angle'', Number 0)])
     canvas0 = Some (Inl InconsistentEndpoints, canvas0)
   \<and> canvas_paths canvas0 = []"
proof -
  let ?call = "literal_call [(''from'', pol_literal 1 0), (''to'', pol_literal 2 1),
                             (''angle'', Number 0)]"
  have n: "\<And>names s. canvas_paths (snd (?call names s)) = canvas_paths s"
    by (simp add: literal_call_def split: option.splits)
  have h: "?call (Some [''from'', ''to'']) canvas0
             = (Some [(''from'', pol_literal 1 0), (''to'', pol_literal 2 1)], canvas0)
           \<and> pol_value_for_parameter ''from''
               [(''from'', pol_literal 1 0), (''to'', pol_literal 2 1)] = Some (Pol 1 0)
           \<and> pol_value_for_parameter ''to''
               [(''from'', pol_literal 1 0), (''to'', pol_literal 2 1)] = Some (Pol 2 1)
           \<and> pol_phi (Pol 1 0) \<noteq> pol_phi (Pol 2 1)"
    by (simp add: literal_call_def pol_value_for_parameter_def pol_literal_def
          current_point_def type_string_def)
  from curve_failure_publishes_nothing
         [where interpret_arguments = ?call and ?s0.0 = canvas0 and ar = exact_arithmetic
            and distance_to = ray_distance_to and translate_horizontally_by = ray_translate,
          OF n] h
  have "function_curve_angle exact_arithmetic ?call canvas0 = Some (Inl InconsistentEndpoints, canvas0)"
    by blast
  then show ?thesis by (simp add: canvas0_def)
qed

text \<open>
  C5. With \<open>from\<close> and \<open>to\<close> bound to points and a resolution other than 0,
  \<^verbatim>\<open>curve_angle\<close> (for endpoints of equal angle) fails with \<open>NonPositiveStep\<close> exactly
  when \<open>(to.r - from.r) / resolution\<close>, taken after lines 211 to 215 have run, is not
  strictly positive, and \<^verbatim>\<open>curve_distance\<close> exactly when
  \<open>from.distance_to(to) / resolution\<close> is not strictly positive, the difference and
  the quotients being what the operations of doubles return. The failed call returns
  the state the argument evaluation left: the scope of the hidden variable is not opened
  and no sample is evaluated.
\<close>

theorem non_positive_step:
  assumes "interpret_arguments (Some [''from'', ''to'']) s0 = (Some interpreted_arguments, s)"
    and "pol_value_for_parameter ''from'' interpreted_arguments = Some from_p"
    and "pol_value_for_parameter ''to'' interpreted_arguments = Some to_p"
    and "canvas_resolution s \<noteq> 0"
  shows "(pol_phi from_p = pol_phi to_p \<longrightarrow>
            ((\<exists>s'. function_curve_angle ar interpret_arguments s0 = Some (Inl NonPositiveStep, s'))
               \<longleftrightarrow> \<not> ddiv ar (dsub ar (pol_r (snd (order_endpoints from_p to_p)))
                                       (pol_r (fst (order_endpoints from_p to_p))))
                         (canvas_resolution s) > 0)
          \<and> (\<not> ddiv ar (dsub ar (pol_r (snd (order_endpoints from_p to_p)))
                                (pol_r (fst (order_endpoints from_p to_p))))
                  (canvas_resolution s) > 0
               \<longrightarrow> function_curve_angle ar interpret_arguments s0 = Some (Inl NonPositiveStep, s)))
       \<and> ((\<exists>s'. function_curve_distance ar distance_to translate_horizontally_by
                   interpret_arguments s0 = Some (Inl NonPositiveStep, s'))
             \<longleftrightarrow> \<not> ddiv ar (distance_to from_p to_p) (canvas_resolution s) > 0)
       \<and> (\<not> ddiv ar (distance_to from_p to_p) (canvas_resolution s) > 0
             \<longrightarrow> function_curve_distance ar distance_to translate_horizontally_by
                   interpret_arguments s0 = Some (Inl NonPositiveStep, s))"
proof -
  obtain from1 to1 where o: "order_endpoints from_p to_p = (from1, to1)"
    by (cases "order_endpoints from_p to_p")
  have angle: "function_curve_angle ar interpret_arguments s0
                 = curve_angle_path ar interpret_arguments from1 to1 s"
    if "pol_phi from_p = pol_phi to_p"
    using assms(1-3) o that by (simp add: function_curve_angle_def)
  have a1: "curve_angle_path ar interpret_arguments from1 to1 s = Some (Inl NonPositiveStep, s)"
    if "\<not> ddiv ar (dsub ar (pol_r to1) (pol_r from1)) (canvas_resolution s) > 0"
    using that by (simp add: curve_angle_path_def Let_def)
  have dist: "function_curve_distance ar distance_to translate_horizontally_by
                interpret_arguments s0
              = curve_distance_path ar distance_to translate_horizontally_by
                  interpret_arguments from_p to_p s"
    using assms(1-3) by (simp add: function_curve_distance_def)
  have d1: "curve_distance_path ar distance_to translate_horizontally_by
              interpret_arguments from_p to_p s = Some (Inl NonPositiveStep, s)"
    if "\<not> ddiv ar (distance_to from_p to_p) (canvas_resolution s) > 0"
    using that by (simp add: curve_distance_path_def Let_def)
  show ?thesis
    using angle a1 dist d1 o
      curve_angle_path_not_step_error [of ar interpret_arguments from1 to1 s]
      curve_distance_path_not_step_error
        [of ar distance_to translate_horizontally_by interpret_arguments from_p to_p s]
    by auto
qed

theorem non_positive_step_witness:
  "function_curve_angle exact_arithmetic
     (literal_call [(''from'', pol_literal 1 0), (''to'', pol_literal 1 0), (''angle'', Number 0)])
     canvas0 = Some (Inl NonPositiveStep, canvas0)
   \<and> function_curve_distance exact_arithmetic ray_distance_to ray_translate
       (literal_call [(''from'', pol_literal 1 0), (''to'', pol_literal 1 0), (''angle'', Number 0)])
       canvas0 = Some (Inl NonPositiveStep, canvas0)"
proof -
  let ?call = "literal_call [(''from'', pol_literal 1 0), (''to'', pol_literal 1 0),
                             (''angle'', Number 0)]"
  have h1: "?call (Some [''from'', ''to'']) canvas0
              = (Some [(''from'', pol_literal 1 0), (''to'', pol_literal 1 0)], canvas0)"
    by (simp add: literal_call_def)
  have h2: "pol_value_for_parameter ''from''
              [(''from'', pol_literal 1 0), (''to'', pol_literal 1 0)] = Some (Pol 1 0)"
    by (simp add: pol_value_for_parameter_def pol_literal_def current_point_def type_string_def)
  have h3: "pol_value_for_parameter ''to''
              [(''from'', pol_literal 1 0), (''to'', pol_literal 1 0)] = Some (Pol 1 0)"
    by (simp add: pol_value_for_parameter_def pol_literal_def current_point_def type_string_def)
  have h4: "canvas_resolution canvas0 \<noteq> 0"
    by (simp add: canvas0_def)
  from non_positive_step
         [where interpret_arguments = ?call and ?s0.0 = canvas0 and ar = exact_arithmetic
            and distance_to = ray_distance_to and translate_horizontally_by = ray_translate,
          OF h1 h2 h3 h4]
  show ?thesis
    by (simp add: order_endpoints_def ray_distance_to_def)
qed

text \<open>
  C6. For the sample position \<open>r\<close>, the point appended to the path is the inverse
  transform chain applied to the offset point translated horizontally by \<open>r\<close>, the
  offset point being \<open>(|distance|, \<pi>/2)\<close> for a distance that is not negative and
  \<open>(|distance|, 3\<pi>/2)\<close> for a negative one; the point bound to the hidden variable is the
  same chain applied to \<open>(r, 0)\<close>; and one round of the loop binds the one, evaluates the
  distance and appends the other.
\<close>

theorem curve_distance_sample_construction:
  "final_resulting_point translate_horizontally_by rotation_angle translation_distance
       second_rotation_angle r distance
     = inverse_transform_chain translate_horizontally_by rotation_angle translation_distance
         second_rotation_angle (translate_horizontally_by r (offset_point distance))
   \<and> current_helper_point_on_line translate_horizontally_by rotation_angle
         translation_distance second_rotation_angle r
     = inverse_transform_chain translate_horizontally_by rotation_angle translation_distance
         second_rotation_angle (Pol r 0)
   \<and> distance_samples translate_horizontally_by interpret_arguments rotation_angle
         translation_distance second_rotation_angle current_scope (r # radii) pts s
     = (case interpret_arguments (Some [''distance''])
               (set_value_for_variable hidden_variable_name
                  (current_point
                     (pol_r (inverse_transform_chain translate_horizontally_by rotation_angle
                               translation_distance second_rotation_angle (Pol r 0)))
                     (pol_phi (inverse_transform_chain translate_horizontally_by rotation_angle
                                 translation_distance second_rotation_angle (Pol r 0))))
                  current_scope s) of
          (None, s2) \<Rightarrow> (Inl ArgumentsFailed, s2)
        | (Some interpreted_distance_argument, s2) \<Rightarrow>
            (case number_value_for_parameter ''distance'' interpreted_distance_argument of
               None \<Rightarrow> (Inl (ParameterFailed ''distance''), s2)
             | Some d \<Rightarrow>
                 distance_samples translate_horizontally_by interpret_arguments rotation_angle
                   translation_distance second_rotation_angle current_scope radii
                   (pts @ [inverse_transform_chain translate_horizontally_by rotation_angle
                             translation_distance second_rotation_angle
                             (translate_horizontally_by r (offset_point d))]) s2))"
proof -
  have offset: "Pol \<bar>d\<bar> (if d < 0 then 2 * pi - pi / 2 else pi / 2) = offset_point d" for d
    by (simp add: offset_point_def)
  have final: "final_resulting_point translate_horizontally_by rotation_angle
                 translation_distance second_rotation_angle r d
               = inverse_transform_chain translate_horizontally_by rotation_angle
                   translation_distance second_rotation_angle
                   (translate_horizontally_by r (offset_point d))" for d
    by (simp add: final_resulting_point_def inverse_transform_chain_def Let_def offset)
  have on_line: "current_helper_point_on_line translate_horizontally_by rotation_angle
                   translation_distance second_rotation_angle r
                 = inverse_transform_chain translate_horizontally_by rotation_angle
                     translation_distance second_rotation_angle (Pol r 0)"
    by (simp add: current_helper_point_on_line_def inverse_transform_chain_def Let_def)
  show ?thesis
    by (simp add: final on_line Let_def split: prod.splits option.splits)
qed



section \<open>The simple built-ins\<close>

text \<open>
  C9. Once the argument \<open>x\<close> is bound to a number, \<^verbatim>\<open>set_resolution\<close> fails with
  \<open>InvalidResolution\<close> exactly when \<open>x \<le> 0\<close>; the failed call returns the state as the
  argument evaluation left it, so the resolution of the canvas keeps its value; and when
  \<open>0 < x\<close> the call returns \<open>x\<close> and sets the resolution of the canvas to \<open>x\<close>.
\<close>

theorem set_resolution_contract:
  assumes "interpret_arguments None s0 = (Some interpreted_arguments, s)"
    and "number_value_for_parameter ''x'' interpreted_arguments = Some x"
  shows "(fst (function_set_resolution interpret_arguments s0) = Inl InvalidResolution \<longleftrightarrow> x \<le> 0)
       \<and> (x \<le> 0 \<longrightarrow> function_set_resolution interpret_arguments s0 = (Inl InvalidResolution, s))
       \<and> (0 < x \<longrightarrow> function_set_resolution interpret_arguments s0
                        = (Inr (Some (Number x)), s\<lparr>canvas_resolution := x\<rparr>))"
  using assms by (simp add: function_set_resolution_def not_less)

theorem set_resolution_contract_witness:
  "literal_call [(''x'', Number (- 1))] None canvas0 = (Some [(''x'', Number (- 1))], canvas0)
   \<and> number_value_for_parameter ''x'' [(''x'', Number (- 1))] = Some (- 1)
   \<and> function_set_resolution (literal_call [(''x'', Number (- 1))]) canvas0
       = (Inl InvalidResolution, canvas0)
   \<and> canvas_resolution
        (snd (function_set_resolution (literal_call [(''x'', Number (- 1))]) canvas0)) = 100"
proof -
  have h1: "literal_call [(''x'', Number (- 1))] None canvas0
              = (Some [(''x'', Number (- 1))], canvas0)"
    by (simp add: literal_call_def)
  have h2: "number_value_for_parameter ''x'' [(''x'', Number (- 1))] = Some (- 1)"
    by (simp add: number_value_for_parameter_def)
  from set_resolution_contract
         [where interpret_arguments = "literal_call [(''x'', Number (- 1))]" and ?s0.0 = canvas0,
          OF h1 h2] h1 h2
  show ?thesis
    by (simp add: canvas0_def)
qed

text \<open>
  C8. Once \<open>from\<close> and \<open>to\<close> are bound to numbers, \<^verbatim>\<open>random\<close> fails with
  \<open>InvalidRange\<close> exactly when \<open>to < from\<close>; when \<open>from \<le> to\<close> it returns a number
  between \<open>from\<close> and \<open>to\<close>, whatever canonical variate the generator draws; and when
  \<open>from = to\<close> it returns exactly that number.
\<close>

theorem random_contract:
  assumes "interpret_arguments None s0 = (Some interpreted_arguments, s)"
    and "number_value_for_parameter ''from'' interpreted_arguments = Some from"
    and "number_value_for_parameter ''to'' interpreted_arguments = Some to"
    and "0 \<le> u" and "u < 1"
  shows "(fst (function_random u interpret_arguments s0) = Inl InvalidRange \<longleftrightarrow> to < from)
       \<and> (from \<le> to \<longrightarrow>
            (\<exists>x. function_random u interpret_arguments s0 = (Inr (Some (Number x)), s)
                 \<and> from \<le> x \<and> x \<le> to))
       \<and> (from = to \<longrightarrow>
            function_random u interpret_arguments s0 = (Inr (Some (Number from)), s))"
proof -
  have "from \<le> u * (to - from) + from \<and> u * (to - from) + from \<le> to" if "from \<le> to"
  proof -
    have "0 \<le> u * (to - from)" using that assms(4) by simp
    moreover have "u * (to - from) \<le> 1 * (to - from)"
      using that assms(5) by (intro mult_right_mono) simp_all
    ultimately show ?thesis by simp
  qed
  then show ?thesis
    using assms(1-3) by (simp add: function_random_def uniform_real_distribution_def)
qed

theorem random_contract_witness:
  "function_random (1 / 2) (literal_call [(''from'', Number 2), (''to'', Number 2)]) canvas0
     = (Inr (Some (Number 2)), canvas0)
   \<and> fst (function_random (1 / 2) (literal_call [(''from'', Number 5), (''to'', Number 2)])
            canvas0) = Inl InvalidRange"
proof -
  have h1: "literal_call [(''from'', Number a), (''to'', Number b)] None canvas0
              = (Some [(''from'', Number a), (''to'', Number b)], canvas0)" for a b
    by (simp add: literal_call_def)
  have h2: "number_value_for_parameter ''from'' [(''from'', Number a), (''to'', Number b)]
              = Some a" for a b
    by (simp add: number_value_for_parameter_def)
  have h3: "number_value_for_parameter ''to'' [(''from'', Number a), (''to'', Number b)]
              = Some b" for a b
    by (simp add: number_value_for_parameter_def)
  have u: "(0::real) \<le> 1 / 2" "(1::real) / 2 < 1" by simp_all
  from random_contract
         [where interpret_arguments = "literal_call [(''from'', Number 2), (''to'', Number 2)]"
            and ?s0.0 = canvas0, OF h1 h2 h3 u]
       random_contract
         [where interpret_arguments = "literal_call [(''from'', Number 5), (''to'', Number 2)]"
            and ?s0.0 = canvas0, OF h1 h2 h3 u]
  show ?thesis by simp
qed

text \<open>
  C7. Once \<open>r1\<close>, \<open>r2\<close> and \<open>R\<close> are bound to numbers, \<^verbatim>\<open>theta\<close> fails with
  \<open>InvalidTriangle\<close> when \<open>r1 > R\<close> or \<open>r2 > R\<close> or \<open>r1 + r2 < R\<close>; when none of the
  three holds it fails with \<open>NumericalFailure\<close> exactly when the primitive
  \<^verbatim>\<open>Pol::theta\<close> returns a negative value, and otherwise it returns the value of the
  primitive, which is then not negative.
\<close>

theorem theta_contract:
  assumes "interpret_arguments None s0 = (Some interpreted_arguments, s)"
    and "number_value_for_parameter ''r1'' interpreted_arguments = Some r_1"
    and "number_value_for_parameter ''r2'' interpreted_arguments = Some r_2"
    and "number_value_for_parameter ''R'' interpreted_arguments = Some R"
  shows "(r_1 > R \<or> r_2 > R \<or> r_1 + r_2 < R \<longrightarrow>
            function_theta theta interpret_arguments s0 = (Inl InvalidTriangle, s))
       \<and> (\<not> (r_1 > R \<or> r_2 > R \<or> r_1 + r_2 < R) \<longrightarrow>
            (fst (function_theta theta interpret_arguments s0) = Inl NumericalFailure
               \<longleftrightarrow> theta r_1 r_2 R < 0)
          \<and> (\<not> theta r_1 r_2 R < 0 \<longrightarrow>
               function_theta theta interpret_arguments s0
                 = (Inr (Some (Number (theta r_1 r_2 R))), s)
               \<and> 0 \<le> theta r_1 r_2 R))"
  using assms by (simp add: function_theta_def Let_def)

theorem theta_contract_witness:
  "function_theta (\<lambda>r_1 r_2 R. - 1)
     (literal_call [(''r1'', Number 1), (''r2'', Number 1), (''R'', Number 3)]) canvas0
     = (Inl InvalidTriangle, canvas0)
   \<and> fst (function_theta (\<lambda>r_1 r_2 R. - 1)
            (literal_call [(''r1'', Number 1), (''r2'', Number 1), (''R'', Number 2)]) canvas0)
       = Inl NumericalFailure
   \<and> function_theta (\<lambda>r_1 r_2 R. r_1 + r_2 - R)
       (literal_call [(''r1'', Number 1), (''r2'', Number 1), (''R'', Number 1)]) canvas0
       = (Inr (Some (Number 1)), canvas0)"
proof -
  have h0: "literal_call [(''r1'', Number a), (''r2'', Number b), (''R'', Number c)] None canvas0
              = (Some [(''r1'', Number a), (''r2'', Number b), (''R'', Number c)], canvas0)"
    for a b c
    by (simp add: literal_call_def)
  have h1: "number_value_for_parameter ''r1''
              [(''r1'', Number a), (''r2'', Number b), (''R'', Number c)] = Some a" for a b c
    by (simp add: number_value_for_parameter_def)
  have h2: "number_value_for_parameter ''r2''
              [(''r1'', Number a), (''r2'', Number b), (''R'', Number c)] = Some b" for a b c
    by (simp add: number_value_for_parameter_def)
  have h3: "number_value_for_parameter ''R''
              [(''r1'', Number a), (''r2'', Number b), (''R'', Number c)] = Some c" for a b c
    by (simp add: number_value_for_parameter_def)
  from theta_contract
         [where interpret_arguments =
                  "literal_call [(''r1'', Number 1), (''r2'', Number 1), (''R'', Number 3)]"
            and ?s0.0 = canvas0 and theta = "\<lambda>r_1 r_2 R. - 1", OF h0 h1 h2 h3]
       theta_contract
         [where interpret_arguments =
                  "literal_call [(''r1'', Number 1), (''r2'', Number 1), (''R'', Number 2)]"
            and ?s0.0 = canvas0 and theta = "\<lambda>r_1 r_2 R. - 1", OF h0 h1 h2 h3]
       theta_contract
         [where interpret_arguments =
                  "literal_call [(''r1'', Number 1), (''r2'', Number 1), (''R'', Number 1)]"
            and ?s0.0 = canvas0 and theta = "\<lambda>r_1 r_2 R. r_1 + r_2 - R", OF h0 h1 h2 h3]
  show ?thesis by simp
qed

end
